theory Spec2Isabelle
  imports Complex_Main
begin

section \<open>Data model of \<open>torille/envs/solo_envs.py\<close>\<close>

text \<open>
  The module adapts a two-body simulator to a one-body environment. Python exceptions
  are values of \<open>error\<close>; a function that can raise returns \<open>error + 'a\<close>.
  A floating-point number is the \<open>real\<close> it denotes. The additions and subtractions
  of \<open>SoloContToriEnv\<close>, whose results are floored, round as the hardware does
  (\<open>float_round\<close>); the reward functions are stated over the reals.
\<close>

datatype error = KeyError string | IndexError | TypeError

text \<open>
  \<open>torille.ToribashConstants\<close> is imported by the module and not defined in it: the
  four constants it reads are parameters of every definition that uses them.
\<close>

record ToribashConstants =
  NUM_JOINTS :: nat
  NUM_JOINT_STATES :: nat
  NUM_LIMBS :: nat
  NUM_CONTROLLABLES :: nat

text \<open>
  The two attributes of a simulator state the module reads. \<open>limb_positions\<close> is an
  array indexed by player, limb and coordinate.
\<close>

record ToribashState =
  plr0_injury :: real
  limb_positions :: "real list list list"

section \<open>Reward functions\<close>

definition reward_self_destruct :: "ToribashState \<Rightarrow> ToribashState \<Rightarrow> real" where
  "reward_self_destruct old_state new_state =
     (let reward = plr0_injury new_state - plr0_injury old_state;
          reward = (if reward > 1 then log 10 reward / 4 else reward)
      in reward)"

definition reward_stay_safe :: "ToribashState \<Rightarrow> ToribashState \<Rightarrow> real" where
  "reward_stay_safe old_state new_state =
     (let reward = - (plr0_injury old_state - plr0_injury new_state);
          reward = (if reward > 1 then log 10 reward / 4 else reward)
      in - reward)"

text \<open>
  \<open>limb_positions[0,0]\<close>: the first limb of the first player; numpy raises IndexError
  when either axis is empty.
\<close>

definition head_position :: "ToribashState \<Rightarrow> error + real list" where
  "head_position state =
     (case limb_positions state of
        [] \<Rightarrow> Inl IndexError
      | player # _ \<Rightarrow> (case player of [] \<Rightarrow> Inl IndexError | limb # _ \<Rightarrow> Inr limb))"

definition reward_run_away :: "ToribashState \<Rightarrow> ToribashState \<Rightarrow> error + real" where
  "reward_run_away old_state new_state =
     (case head_position old_state of
        Inl e \<Rightarrow> Inl e
      | Inr old_pos \<Rightarrow>
          (case head_position new_state of
             Inl e \<Rightarrow> Inl e
           | Inr new_pos \<Rightarrow>
               Inr (sqrt (sum_list (map (\<lambda>x. x ^ 2) new_pos))
                    - sqrt (sum_list (map (\<lambda>x. x ^ 2) old_pos)))))"

text \<open>
  The specification's reading of the reward: the Euclidean distance of a position from
  the origin, written coordinate by coordinate.
\<close>

definition euclidean_norm :: "real list \<Rightarrow> real" where
  "euclidean_norm p = sqrt (\<Sum>i<length p. (p ! i) ^ 2)"

section \<open>Python sequences and the caller's object\<close>

text \<open>
  \<open>_preprocess_action\<close> of \<open>SoloToriEnv\<close> tests \<open>type(action) != list\<close>: a Python
  list is updated where it stands, any other sequence (a tuple, a numpy array) is first
  copied into a new list. Both functions that take an action return, next to their
  result, the contents of the caller's object when the call is over.
\<close>

datatype 'a pyseq = PyList "'a list" | PyIterable "'a list"

fun items :: "'a pyseq \<Rightarrow> 'a list" where
  "items (PyList xs) = xs"
| "items (PyIterable xs) = xs"

section \<open>SoloToriEnv\<close>

text \<open>
  The loop \<open>for i in range(n): action[i] += 1\<close> is \<open>increment_joints 0 n action\<close>:
  the first argument is the index \<open>i\<close>, the second the number of iterations left. An
  index past the end of the list raises IndexError; the entries written before stay
  written.
\<close>

fun increment_joints :: "nat \<Rightarrow> nat \<Rightarrow> int list \<Rightarrow> error option \<times> int list" where
  "increment_joints i 0 action = (None, action)"
| "increment_joints i (Suc k) action =
     (if i < length action
      then increment_joints (Suc i) k (action[i := action ! i + 1])
      else (Some IndexError, action))"

definition SoloToriEnv_preprocess_action ::
  "ToribashConstants \<Rightarrow> int pyseq \<Rightarrow> (error + int list \<times> int list) \<times> int pyseq" where
  "SoloToriEnv_preprocess_action c action =
     (case action of
        PyList xs \<Rightarrow>
          (case increment_joints 0 (NUM_JOINTS c) xs of
             (Some e, ys) \<Rightarrow> (Inl e, PyList ys)
           | (None, ys) \<Rightarrow> (Inr (ys, replicate (NUM_CONTROLLABLES c) 1), PyList ys))
      | PyIterable xs \<Rightarrow>
          (case increment_joints 0 (NUM_JOINTS c) xs of
             (Some e, ys) \<Rightarrow> (Inl e, PyIterable xs)
           | (None, ys) \<Rightarrow> (Inr (ys, replicate (NUM_CONTROLLABLES c) 1), PyIterable xs)))"

text \<open>
  \<open>state.limb_positions[0].ravel()\<close>: the limbs of the first player, flattened row by
  row. The state is returned beside the result: the function assigns to nothing.
\<close>

definition SoloToriEnv_preprocess_observation ::
  "ToribashState \<Rightarrow> (error + real list) \<times> ToribashState" where
  "SoloToriEnv_preprocess_observation state =
     (case limb_positions state of
        [] \<Rightarrow> (Inl IndexError, state)
      | player # _ \<Rightarrow> (Inr (concat player), state))"

section \<open>SoloContToriEnv\<close>

text \<open>\<open>np.clip(x, a_min, a_max)\<close> is \<open>minimum(maximum(x, a_min), a_max)\<close>.\<close>

definition clip :: "real \<Rightarrow> real \<Rightarrow> real \<Rightarrow> real" where
  "clip x a_min a_max = min (max x a_min) a_max"

text \<open>
  \<open>astype(np.int32)\<close> truncates towards zero. Every value the module casts has been
  clipped and floored first, so it lies in the range of a 32-bit integer.
\<close>

definition astype_int32 :: "real \<Rightarrow> int" where
  "astype_int32 x = (if x < 0 then \<lceil>x\<rceil> else \<lfloor>x\<rfloor>)"

text \<open>
  Binary floating-point arithmetic rounds each result to the nearest representable
  number, ties to the one with an even significand. \<open>round_half_even\<close> rounds to an
  integer in that way.
\<close>

definition round_half_even :: "real \<Rightarrow> int" where
  "round_half_even q =
     (let f = \<lfloor>q\<rfloor>; r = q - real_of_int f
      in if r < 1 / 2 then f
         else if r > 1 / 2 then f + 1
         else if even f then f else f + 1)"

text \<open>
  \<open>float_round t x\<close> is \<open>x\<close> rounded to a format with \<open>t\<close> fraction bits (23 for
  float32, 52 for float64): the representable numbers of magnitude in
  \<open>[2^e, 2^(e+1))\<close> are the multiples of \<open>2^e / 2^t\<close>. The exponent is not bounded:
  adding or subtracting 1 cannot overflow a finite number, and a sum that falls in the
  subnormal range is exact.
\<close>

definition float_round :: "nat \<Rightarrow> real \<Rightarrow> real" where
  "float_round t x =
     (if x = 0 then 0
      else (let e = \<lfloor>log 2 \<bar>x\<bar>\<rfloor>;
                ulp = 2 powr real_of_int e / 2 ^ t
            in real_of_int (round_half_even (x / ulp)) * ulp))"

text \<open>
  The action is a numpy array of floats with \<open>t\<close> fraction bits, updated where it
  stands: \<open>action += 1\<close> (a rounded addition), the slice assignment to \<open>action[:-2]\<close>,
  then the assignments to \<open>action[-2]\<close> and \<open>action[-1]\<close>, whose right-hand sides
  subtract 1 (a rounded subtraction) and which raise IndexError on an array shorter
  than two. \<open>np.clip\<close> and \<open>np.floor\<close> are exact; the bounds 4.9 and 1.9 are
  themselves rounded to the array's format, which changes no floor, as the rounded
  bounds stay strictly between 4 and 5 and between 1 and 2. \<open>astype\<close> makes a new
  array. The second component is the caller's array after the call.
\<close>

definition SoloContToriEnv_preprocess_action ::
  "nat \<Rightarrow> ToribashConstants \<Rightarrow> real list
     \<Rightarrow> (error + int list \<times> int list) \<times> real list" where
  "SoloContToriEnv_preprocess_action t c action =
     (let n = length action;
          a1 = map (\<lambda>v. float_round t (v + 1)) action;
          a2 = map (\<lambda>v. real_of_int \<lfloor>clip v 0 4.9\<rfloor>) (take (n - 2) a1) @ drop (n - 2) a1
      in if n < 2 then (Inl IndexError, a2)
         else
           (let a3 = a2[n - 2 :=
                       real_of_int \<lfloor>clip (float_round t (a2 ! (n - 2) - 1)) 0 1.9\<rfloor>];
                a4 = a3[n - 1 :=
                       real_of_int \<lfloor>clip (float_round t (a3 ! (n - 1) - 1)) 0 1.9\<rfloor>]
            in (Inr (map astype_int32 a4, replicate (NUM_CONTROLLABLES c) 1), a4)))"

text \<open>
  Names for the two expressions the function computes: the code of a joint value and
  the code of a grip value.
\<close>

definition joint_code :: "nat \<Rightarrow> real \<Rightarrow> int" where
  "joint_code t v = \<lfloor>clip (float_round t (v + 1)) 0 4.9\<rfloor>"

definition grip_code :: "nat \<Rightarrow> real \<Rightarrow> int" where
  "grip_code t v = \<lfloor>clip (float_round t (float_round t (v + 1) - 1)) 0 1.9\<rfloor>"

definition SoloContToriEnv_preprocess_observation ::
  "ToribashState \<Rightarrow> (error + real list) \<times> ToribashState" where
  "SoloContToriEnv_preprocess_observation state =
     (case limb_positions state of
        [] \<Rightarrow> (Inl IndexError, state)
      | player # _ \<Rightarrow> (Inr (concat player), state))"

section \<open>Construction\<close>

text \<open>
  A keyword argument is either a callable taking two states or some other object.
\<close>

datatype config_value =
  Callable "ToribashState \<Rightarrow> ToribashState \<Rightarrow> error + real"
  | NotCallable

type_synonym kwargs = "string \<rightharpoonup> config_value"

text \<open>
  An entry of the list handed to \<open>spaces.MultiDiscrete\<close>: on win32 the module writes a
  pair \<open>[min, max]\<close> per dimension, elsewhere one integer per dimension.
\<close>

datatype md_entry = MinMax int int | Size int

text \<open>
  Modelled from the spec: \<open>spaces.MultiDiscrete\<close> belongs to the host library and is not
  in the repository. The specification (4.2) names its two encodings, an explicit
  per-dimension [min, max] range and a plain size; a dimension of size \<open>n\<close> admits the
  values \<open>0 .. n - 1\<close> (the action's range [0, NUM_JOINT_STATES-1]).
\<close>

fun admissible :: "md_entry \<Rightarrow> int list" where
  "admissible (MinMax lo hi) = [lo..hi]"
| "admissible (Size n) = [0..n - 1]"

record Box =
  low :: real
  high :: real
  shape :: nat

record 'a env =
  reward_func :: config_value
  action_space :: 'a
  observation_space :: Box

text \<open>The branch on \<open>sys.platform\<close> in \<open>SoloToriEnv.__init__\<close>.\<close>

definition SoloToriEnv_action_space :: "string \<Rightarrow> ToribashConstants \<Rightarrow> md_entry list" where
  "SoloToriEnv_action_space platform c =
     (if platform = ''win32''
      then replicate (NUM_JOINTS c) (MinMax 0 (int (NUM_JOINT_STATES c) - 1))
           @ replicate 2 (MinMax 0 1)
      else replicate (NUM_JOINTS c) (Size (int (NUM_JOINT_STATES c)))
           @ replicate 2 (Size 1))"

text \<open>
  The constructor of the base class \<open>ToriEnv\<close> is not in the repository: \<open>base_init\<close>
  stands for it, \<open>None\<close> when it returns and \<open>Some e\<close> when it raises \<open>e\<close>.
  \<open>kwargs["reward_func"]\<close> raises KeyError when the key is missing.
\<close>

definition SoloToriEnv_init ::
  "(kwargs \<Rightarrow> error option) \<Rightarrow> string \<Rightarrow> ToribashConstants \<Rightarrow> kwargs
     \<Rightarrow> error + (md_entry list) env" where
  "SoloToriEnv_init base_init platform c kw =
     (case base_init kw of
        Some e \<Rightarrow> Inl e
      | None \<Rightarrow>
          (case kw ''reward_func'' of
             None \<Rightarrow> Inl (KeyError ''reward_func'')
           | Some f \<Rightarrow>
               Inr \<lparr>reward_func = f,
                    action_space = SoloToriEnv_action_space platform c,
                    observation_space = \<lparr>low = - 30, high = 30, shape = NUM_LIMBS c * 3\<rparr>\<rparr>))"

definition SoloContToriEnv_init ::
  "(kwargs \<Rightarrow> error option) \<Rightarrow> ToribashConstants \<Rightarrow> kwargs \<Rightarrow> error + Box env" where
  "SoloContToriEnv_init base_init c kw =
     (case base_init kw of
        Some e \<Rightarrow> Inl e
      | None \<Rightarrow>
          (case kw ''reward_func'' of
             None \<Rightarrow> Inl (KeyError ''reward_func'')
           | Some f \<Rightarrow>
               Inr \<lparr>reward_func = f,
                    action_space = \<lparr>low = 0.0, high = 3.9, shape = NUM_CONTROLLABLES c\<rparr>,
                    observation_space = \<lparr>low = - 30, high = 30, shape = NUM_LIMBS c * 3\<rparr>\<rparr>))"

text \<open>
  \<open>_reward_function\<close> of both classes: \<open>self.reward_func(old_state, new_state)\<close>;
  calling an object that is not callable raises TypeError.
\<close>

definition reward_function :: "'a env \<Rightarrow> ToribashState \<Rightarrow> ToribashState \<Rightarrow> error + real" where
  "reward_function self old_state new_state =
     (case reward_func self of
        Callable f \<Rightarrow> f old_state new_state
      | NotCallable \<Rightarrow> Inl TypeError)"

section \<open>Concrete inputs used in the examples\<close>

text \<open>
  An instance of the constants: twenty joints of four states (the module's comment
  maps [0,3] to [1,4]), twenty-one limbs and twenty-two controllables.
\<close>

definition example_constants :: ToribashConstants where
  "example_constants =
     \<lparr>NUM_JOINTS = 20, NUM_JOINT_STATES = 4, NUM_LIMBS = 21, NUM_CONTROLLABLES = 22\<rparr>"

definition injured :: "real \<Rightarrow> ToribashState" where
  "injured x = \<lparr>plr0_injury = x, limb_positions = []\<rparr>"

definition head_at :: "real list \<Rightarrow> ToribashState" where
  "head_at p = \<lparr>plr0_injury = 0, limb_positions = [[p], [p]]\<rparr>"

section \<open>Reward functions: theorems\<close>

text \<open>
  C4: for the injury delta \<open>d\<close> between the new and the old state,
  \<open>reward_self_destruct\<close> returns \<open>d\<close> itself when \<open>d \<le> 1\<close> and \<open>log10 d / 4\<close>
  when \<open>d > 1\<close>.
\<close>

theorem reward_self_destruct_delta:
  "(plr0_injury new_state - plr0_injury old_state \<le> 1 \<longrightarrow>
      reward_self_destruct old_state new_state
        = plr0_injury new_state - plr0_injury old_state)
   \<and> (plr0_injury new_state - plr0_injury old_state > 1 \<longrightarrow>
      reward_self_destruct old_state new_state
        = log 10 (plr0_injury new_state - plr0_injury old_state) / 4)"
  by (simp add: reward_self_destruct_def)

text \<open>A delta of one half is returned as it is; a delta of ten becomes one quarter.\<close>

theorem reward_self_destruct_delta_witness:
  "plr0_injury (injured (1/2)) - plr0_injury (injured 0) \<le> 1
   \<and> reward_self_destruct (injured 0) (injured (1/2)) = 1/2
   \<and> plr0_injury (injured 10) - plr0_injury (injured 0) > 1
   \<and> reward_self_destruct (injured 0) (injured 10) = 1/4"
  using reward_self_destruct_delta [where old_state = "injured 0" and new_state = "injured (1/2)"]
    reward_self_destruct_delta [where old_state = "injured 0" and new_state = "injured 10"]
  by (simp add: injured_def)

text \<open>
  C5: when the injury of the new state is at least that of the old state,
  \<open>reward_stay_safe\<close> is at most 0, and it is exactly 0 when the two injuries are equal.
\<close>

theorem reward_stay_safe_nonpositive:
  "(plr0_injury new_state \<ge> plr0_injury old_state \<longrightarrow> reward_stay_safe old_state new_state \<le> 0)
   \<and> (plr0_injury new_state = plr0_injury old_state \<longrightarrow> reward_stay_safe old_state new_state = 0)"
proof -
  define d where "d = plr0_injury new_state - plr0_injury old_state"
  have r: "reward_stay_safe old_state new_state = - (if d > 1 then log 10 d / 4 else d)"
    by (simp add: reward_stay_safe_def Let_def d_def)
  have "0 \<le> d \<Longrightarrow> - (if d > 1 then log 10 d / 4 else d) \<le> 0"
    by simp
  moreover have "d = 0 \<Longrightarrow> - (if d > 1 then log 10 d / 4 else d) = 0"
    by simp
  ultimately show ?thesis
    unfolding r by (simp add: d_def)
qed

theorem reward_stay_safe_nonpositive_witness:
  "plr0_injury (injured 10) \<ge> plr0_injury (injured 0)
   \<and> reward_stay_safe (injured 0) (injured 10) \<le> 0
   \<and> plr0_injury (injured 3) = plr0_injury (injured 3)
   \<and> reward_stay_safe (injured 3) (injured 3) = 0"
  using reward_stay_safe_nonpositive [where old_state = "injured 0" and new_state = "injured 10"]
    reward_stay_safe_nonpositive [where old_state = "injured 3" and new_state = "injured 3"]
  by (simp add: injured_def)

text \<open>
  C10: for every pair of states \<open>reward_stay_safe\<close> is the negation of
  \<open>reward_self_destruct\<close>.
\<close>

theorem reward_stay_safe_negates_self_destruct:
  "reward_stay_safe old_state new_state = - reward_self_destruct old_state new_state"
  by (simp add: reward_stay_safe_def reward_self_destruct_def Let_def)

lemma sum_list_squares: "sum_list (map (\<lambda>x. x ^ 2) p) = (\<Sum>i<length p. (p ! i) ^ 2)"
  for p :: "real list"
  by (simp add: sum_list_sum_nth atLeast0LessThan)

lemma head_position_Cons: "limb_positions s = (p # limbs) # players \<Longrightarrow> head_position s = Inr p"
  by (simp add: head_position_def)

text \<open>
  C6: for two states that each have a head position (first player, first limb),
  \<open>reward_run_away\<close> returns the Euclidean norm of the new head position minus that of
  the old one; from (3,4,0) to (6,8,0) this is 5.
\<close>

theorem reward_run_away_norm_difference:
  assumes "limb_positions old_state = (old_pos # old_limbs) # old_players"
    and "limb_positions new_state = (new_pos # new_limbs) # new_players"
  shows "reward_run_away old_state new_state =
           Inr (euclidean_norm new_pos - euclidean_norm old_pos)
         \<and> (old_pos = [3, 4, 0] \<and> new_pos = [6, 8, 0] \<longrightarrow>
              reward_run_away old_state new_state = Inr 5)"
proof -
  have r: "reward_run_away old_state new_state =
             Inr (sqrt (sum_list (map (\<lambda>x. x ^ 2) new_pos))
                  - sqrt (sum_list (map (\<lambda>x. x ^ 2) old_pos)))"
    by (simp add: reward_run_away_def head_position_Cons [OF assms(1)]
        head_position_Cons [OF assms(2)])
  have five: "sqrt (sum_list (map (\<lambda>x. x ^ 2) [3, 4, 0::real])) = 5"
    by (simp add: real_sqrt_unique)
  have ten: "sqrt (sum_list (map (\<lambda>x. x ^ 2) [6, 8, 0::real])) = 10"
    by (simp add: real_sqrt_unique)
  show ?thesis
    using five ten by (simp add: r euclidean_norm_def sum_list_squares)
qed

theorem reward_run_away_norm_difference_witness:
  "limb_positions (head_at [3, 4, 0]) = ([3, 4, 0] # []) # [[[3, 4, 0]]]
   \<and> limb_positions (head_at [6, 8, 0]) = ([6, 8, 0] # []) # [[[6, 8, 0]]]
   \<and> reward_run_away (head_at [3, 4, 0]) (head_at [6, 8, 0]) = Inr 5"
proof -
  have old: "limb_positions (head_at [3, 4, 0]) = ([3, 4, 0] # []) # [[[3, 4, 0]]]"
    by (simp add: head_at_def)
  have new: "limb_positions (head_at [6, 8, 0]) = ([6, 8, 0] # []) # [[[6, 8, 0]]]"
    by (simp add: head_at_def)
  have "reward_run_away (head_at [3, 4, 0]) (head_at [6, 8, 0]) = Inr 5"
    using reward_run_away_norm_difference [OF old new] by blast
  with old new show ?thesis by blast
qed

section \<open>SoloToriEnv: the action\<close>

lemma increment_joints_in_range:
  "i + k \<le> length xs \<Longrightarrow>
   increment_joints i k xs =
     (None, take i xs @ map (\<lambda>v. v + 1) (take k (drop i xs)) @ drop (i + k) xs)"
proof (induction k arbitrary: i xs)
  case 0
  then show ?case by simp
next
  case (Suc k)
  from Suc.prems have i: "i < length xs" by simp
  have "increment_joints i (Suc k) xs = increment_joints (Suc i) k (xs[i := xs ! i + 1])"
    using i by simp
  also have "\<dots> = (None, take (Suc i) (xs[i := xs ! i + 1])
       @ map (\<lambda>v. v + 1) (take k (drop (Suc i) (xs[i := xs ! i + 1])))
       @ drop (Suc i + k) (xs[i := xs ! i + 1]))"
    using Suc.prems by (intro Suc.IH) simp
  also have "take (Suc i) (xs[i := xs ! i + 1]) = take i xs @ [xs ! i + 1]"
    using i by (simp add: take_Suc_conv_app_nth)
  also have "drop (Suc i) (xs[i := xs ! i + 1]) = drop (Suc i) xs" by simp
  also have "drop (Suc i + k) (xs[i := xs ! i + 1]) = drop (i + Suc k) xs" by simp
  also have "(take i xs @ [xs ! i + 1]) @ map (\<lambda>v. v + 1) (take k (drop (Suc i) xs)) @ drop (i + Suc k) xs
     = take i xs @ map (\<lambda>v. v + 1) (take (Suc k) (drop i xs)) @ drop (i + Suc k) xs"
    using i by (simp add: Cons_nth_drop_Suc [symmetric])
  finally show ?case .
qed

lemma increment_joints_all:
  "n \<le> length xs \<Longrightarrow>
   increment_joints 0 n xs = (None, map (\<lambda>v. v + 1) (take n xs) @ drop n xs)"
  using increment_joints_in_range [of 0 n xs] by simp

lemma SoloToriEnv_preprocess_action_pair:
  assumes "NUM_JOINTS c \<le> length (items action)"
  shows "SoloToriEnv_preprocess_action c action =
     (Inr (map (\<lambda>v. v + 1) (take (NUM_JOINTS c) (items action)) @ drop (NUM_JOINTS c) (items action),
           replicate (NUM_CONTROLLABLES c) 1),
      case action of
        PyList xs \<Rightarrow> PyList (map (\<lambda>v. v + 1) (take (NUM_JOINTS c) xs) @ drop (NUM_JOINTS c) xs)
      | PyIterable xs \<Rightarrow> PyIterable xs)"
  using assms
  by (cases action) (simp_all add: SoloToriEnv_preprocess_action_def increment_joints_all)

lemma replicate_two: "replicate 2 x = [x, x]"
  by (simp add: numeral_2_eq_2)

lemma replicate_plus_two: "replicate (n + 2) x = replicate n x @ [x, x]"
  by (induction n) (simp_all add: numeral_2_eq_2)

text \<open>
  C1: for an action of length NUM_JOINTS + 2, \<open>_preprocess_action\<close> of \<open>SoloToriEnv\<close>
  returns the pair of the action with its first NUM_JOINTS entries incremented by 1 and
  its last two entries unchanged, and of NUM_CONTROLLABLES ones; the all-zero action
  gives joints 1 and grips 0.
\<close>

theorem SoloToriEnv_preprocess_action_result:
  assumes "length (items action) = NUM_JOINTS c + 2"
  shows "fst (SoloToriEnv_preprocess_action c action) =
           Inr (map (\<lambda>v. v + 1) (take (NUM_JOINTS c) (items action))
                  @ drop (NUM_JOINTS c) (items action),
                replicate (NUM_CONTROLLABLES c) 1)
         \<and> (items action = replicate (NUM_JOINTS c + 2) 0 \<longrightarrow>
              fst (SoloToriEnv_preprocess_action c action) =
                Inr (replicate (NUM_JOINTS c) 1 @ [0, 0], replicate (NUM_CONTROLLABLES c) 1))"
proof -
  have le: "NUM_JOINTS c \<le> length (items action)" using assms by simp
  have zeros: "map (\<lambda>v. v + 1) (take (NUM_JOINTS c) xs) @ drop (NUM_JOINTS c) xs
                 = replicate (NUM_JOINTS c) 1 @ [0, 0]"
    if "xs = replicate (NUM_JOINTS c + 2) (0::int)" for xs
    unfolding that replicate_plus_two by simp
  show ?thesis
    using zeros by (simp add: SoloToriEnv_preprocess_action_pair [OF le])
qed

theorem SoloToriEnv_preprocess_action_result_witness:
  "length (items (PyList (replicate 22 (0::int)))) = NUM_JOINTS example_constants + 2
   \<and> fst (SoloToriEnv_preprocess_action example_constants (PyList (replicate 22 0))) =
       Inr (replicate 20 1 @ [0, 0], replicate 22 1)"
  using SoloToriEnv_preprocess_action_result
      [where action = "PyList (replicate 22 0)" and c = example_constants]
  by (simp add: example_constants_def replicate_two)

section \<open>Floating-point rounding\<close>

lemma round_half_even_of_int: "round_half_even (real_of_int k) = k"
  by (simp add: round_half_even_def)

lemma floor_log2_eq:
  assumes "2 powr real_of_int e \<le> \<bar>x\<bar>" and "\<bar>x\<bar> < 2 powr real_of_int (e + 1)"
  shows "\<lfloor>log 2 \<bar>x\<bar>\<rfloor> = e"
proof -
  have "0 < (2::real) powr real_of_int e" by simp
  with assms(1) have "0 < \<bar>x\<bar>" by linarith
  then show ?thesis using assms by (simp add: floor_log_eq_powr_iff)
qed

lemma float_round_unit:
  assumes "1 \<le> \<bar>x\<bar>" and "\<bar>x\<bar> < 2"
  shows "float_round t x = real_of_int (round_half_even (x * 2 ^ t)) / 2 ^ t"
proof -
  have "\<lfloor>log 2 \<bar>x\<bar>\<rfloor> = 0" using assms by (intro floor_log2_eq) simp_all
  moreover have "x \<noteq> 0" using assms by auto
  ultimately show ?thesis by (simp add: float_round_def)
qed

lemma float_round_half:
  assumes "1 / 2 \<le> \<bar>x\<bar>" and "\<bar>x\<bar> < 1"
  shows "float_round t x = real_of_int (round_half_even (x * 2 ^ (t + 1))) / 2 ^ (t + 1)"
proof -
  have "\<lfloor>log 2 \<bar>x\<bar>\<rfloor> = - 1"
    using assms by (intro floor_log2_eq) (simp_all add: powr_minus)
  moreover have "x \<noteq> 0" using assms by auto
  ultimately show ?thesis by (simp add: float_round_def powr_minus field_simps)
qed

lemma float_round_zero: "float_round t 0 = 0"
  by (simp add: float_round_def)

lemma float_round_one: "float_round t 1 = 1"
proof -
  have "round_half_even (2 ^ t) = 2 ^ t"
    using round_half_even_of_int [of "2 ^ t"] by simp
  then show ?thesis by (simp add: float_round_unit)
qed

text \<open>
  The largest float64 below 1 is \<open>1 - 2^-53\<close>. Adding 1 to it gives a number halfway
  between two neighbours, and the tie goes to 2.
\<close>

lemma float64_below_one: "float_round 52 (1 - 1 / 2 ^ 53) = 1 - 1 / 2 ^ 53"
proof -
  have "round_half_even ((1 - 1 / 2 ^ 53) * 2 ^ (52 + 1)) = 2 ^ 53 - 1"
    by (simp add: round_half_even_def Let_def)
  then show ?thesis by (simp add: float_round_half)
qed

lemma float64_below_one_plus_one: "float_round 52 (1 - 1 / 2 ^ 53 + 1) = 2"
proof -
  have "round_half_even ((1 - 1 / 2 ^ 53 + 1) * 2 ^ 52) = 2 ^ 52 * 2"
    by (simp add: round_half_even_def Let_def)
  then show ?thesis by (simp add: float_round_unit)
qed

section \<open>SoloContToriEnv: the action\<close>

lemma astype_int32_of_int: "astype_int32 (real_of_int k) = k"
  by (simp add: astype_int32_def)

lemma last_two_cases:
  assumes "length xs = n + 2"
  obtains js g1 g2 where "xs = js @ [g1, g2]" and "length js = n"
proof -
  define ys where "ys = drop n xs"
  have "length ys = Suc (Suc 0)" using assms by (simp add: ys_def)
  then obtain g1 g2 where d: "ys = [g1, g2]"
    by (auto simp: length_Suc_conv)
  have "xs = take n xs @ [g1, g2]"
    using d unfolding ys_def by (metis append_take_drop_id)
  moreover have "length (take n xs) = n" using assms by simp
  ultimately show thesis using that by blast
qed

lemma SoloContToriEnv_preprocess_action_split:
  "SoloContToriEnv_preprocess_action t c (js @ [g1, g2]) =
     (Inr (map (joint_code t) js @ [grip_code t g1, grip_code t g2],
           replicate (NUM_CONTROLLABLES c) 1),
      map (\<lambda>v. real_of_int (joint_code t v)) js
        @ [real_of_int (grip_code t g1), real_of_int (grip_code t g2)])"
  by (simp add: SoloContToriEnv_preprocess_action_def Let_def nth_append list_update_append
      astype_int32_of_int comp_def joint_code_def grip_code_def)

lemma int_in_0_4: "0 \<le> k \<Longrightarrow> k < 5 \<Longrightarrow> k \<in> {0, 1, 2, 3, 4::int}"
  by auto

lemma int_in_0_1: "0 \<le> k \<Longrightarrow> k < 2 \<Longrightarrow> k \<in> {0, 1::int}"
  by auto

lemma joint_code_range: "joint_code t v \<in> {0, 1, 2, 3, 4}"
  unfolding joint_code_def
proof (rule int_in_0_4)
  show "0 \<le> \<lfloor>clip (float_round t (v + 1)) 0 4.9\<rfloor>" by (simp add: clip_def)
  show "\<lfloor>clip (float_round t (v + 1)) 0 4.9\<rfloor> < 5" by (simp add: clip_def floor_less_iff)
qed

lemma grip_code_range: "grip_code t v \<in> {0, 1}"
  unfolding grip_code_def
proof (rule int_in_0_1)
  show "0 \<le> \<lfloor>clip (float_round t (float_round t (v + 1) - 1)) 0 1.9\<rfloor>"
    by (simp add: clip_def)
  show "\<lfloor>clip (float_round t (float_round t (v + 1) - 1)) 0 1.9\<rfloor> < 2"
    by (simp add: clip_def floor_less_iff)
qed

lemma joint_code_zero: "joint_code t 0 = 1"
  by (simp add: joint_code_def float_round_one clip_def)

lemma grip_code_zero: "grip_code t 0 = 0"
  by (simp add: grip_code_def float_round_one float_round_zero clip_def)

lemma SoloContToriEnv_preprocess_action_pair:
  assumes "length action = n + 2"
  shows "SoloContToriEnv_preprocess_action t c action =
     (Inr (map (joint_code t) (take n action) @ map (grip_code t) (drop n action),
           replicate (NUM_CONTROLLABLES c) 1),
      map (\<lambda>v. real_of_int (joint_code t v)) (take n action)
        @ map (\<lambda>v. real_of_int (grip_code t v)) (drop n action))"
proof -
  from assms obtain js g1 g2 where xs: "action = js @ [g1, g2]" and n: "length js = n"
    by (rule last_two_cases)
  show ?thesis
    unfolding xs SoloContToriEnv_preprocess_action_split using n by simp
qed

lemma discretise_zeros:
  "map (joint_code t) (take n (replicate (n + 2) 0))
     @ map (grip_code t) (drop n (replicate (n + 2) 0))
   = replicate n 1 @ [0, 0]"
  unfolding replicate_plus_two by (simp add: joint_code_zero grip_code_zero)

text \<open>
  C3, as the specification states it, fails. In a float64 array whose last entry is
  \<open>1 - 2^-53\<close>, a value of the action space, \<open>action += 1\<close> rounds that entry to 2,
  so the grip comes out as 1, where \<open>floor (clip v 0 1.9)\<close> is 0.
\<close>

theorem SoloContToriEnv_grip_rounding_counterexample:
  "fst (SoloContToriEnv_preprocess_action 52 example_constants
          (replicate 21 0 @ [1 - 1 / 2 ^ 53]))
     = Inr (replicate 20 1 @ [0, 1], replicate 22 1)
   \<and> \<lfloor>clip (1 - 1 / 2 ^ 53) 0 1.9\<rfloor> = 0
   \<and> float_round 52 (1 - 1 / 2 ^ 53) = 1 - 1 / 2 ^ 53
   \<and> 0 \<le> (1 - 1 / 2 ^ 53 :: real) \<and> (1 - 1 / 2 ^ 53 :: real) \<le> 3.9"
proof -
  define x :: real where "x = 1 - 1 / 2 ^ 53"
  have g: "grip_code 52 x = 1"
    using float64_below_one_plus_one
    by (simp add: grip_code_def x_def float_round_one clip_def)
  have split: "replicate 21 0 @ [x] = replicate 20 0 @ [0, x]"
    by (simp add: replicate_append_same eval_nat_numeral)
  have "fst (SoloContToriEnv_preprocess_action 52 example_constants (replicate 21 0 @ [x]))
          = Inr (replicate 20 1 @ [0, 1], replicate 22 1)"
    unfolding split SoloContToriEnv_preprocess_action_split
    by (simp add: joint_code_zero grip_code_zero g example_constants_def)
  moreover have "\<lfloor>clip x 0 1.9\<rfloor> = 0"
    by (simp add: clip_def x_def)
  moreover have "float_round 52 x = x"
    unfolding x_def by (rule float64_below_one)
  moreover have "0 \<le> x" "x \<le> 3.9" by (simp_all add: x_def)
  ultimately show ?thesis unfolding x_def by blast
qed

text \<open>
  C3, amended: for an array of length NUM_CONTROLLABLES = NUM_JOINTS + 2 whose format
  has \<open>t\<close> fraction bits, \<open>_preprocess_action\<close> of \<open>SoloContToriEnv\<close> maps a joint value
  \<open>v\<close> to \<open>floor (clip (v \<oplus> 1) 0 4.9)\<close>, one of 0, 1, 2, 3, 4, and a grip value \<open>v\<close> to
  \<open>floor (clip ((v \<oplus> 1) \<ominus> 1) 0 1.9)\<close>, 0 or 1, where \<open>\<oplus>\<close> and \<open>\<ominus>\<close> are the rounded
  addition and subtraction, and pairs the result with NUM_CONTROLLABLES ones. Where
  \<open>v\<close> and \<open>v + 1\<close> are both representable these are \<open>floor (clip (v + 1) 0 4.9)\<close> and
  \<open>floor (clip v 0 1.9)\<close>; the all-zero array gives joints 1 and grips 0.
\<close>

theorem SoloContToriEnv_preprocess_action_result:
  assumes "length action = NUM_CONTROLLABLES c"
    and "NUM_CONTROLLABLES c = NUM_JOINTS c + 2"
  shows "fst (SoloContToriEnv_preprocess_action t c action) =
           Inr (map (\<lambda>v. \<lfloor>clip (float_round t (v + 1)) 0 4.9\<rfloor>) (take (NUM_JOINTS c) action)
                  @ map (\<lambda>v. \<lfloor>clip (float_round t (float_round t (v + 1) - 1)) 0 1.9\<rfloor>)
                      (drop (NUM_JOINTS c) action),
                replicate (NUM_CONTROLLABLES c) 1)
         \<and> (\<forall>v. \<lfloor>clip (float_round t (v + 1)) 0 4.9\<rfloor> \<in> {0, 1, 2, 3, 4}
                \<and> \<lfloor>clip (float_round t (float_round t (v + 1) - 1)) 0 1.9\<rfloor> \<in> {0, 1})
         \<and> (\<forall>v. float_round t (v + 1) = v + 1 \<and> float_round t v = v \<longrightarrow>
                \<lfloor>clip (float_round t (v + 1)) 0 4.9\<rfloor> = \<lfloor>clip (v + 1) 0 4.9\<rfloor>
                \<and> \<lfloor>clip (float_round t (float_round t (v + 1) - 1)) 0 1.9\<rfloor>
                    = \<lfloor>clip v 0 1.9\<rfloor>)
         \<and> (action = replicate (NUM_CONTROLLABLES c) 0 \<longrightarrow>
              fst (SoloContToriEnv_preprocess_action t c action) =
                Inr (replicate (NUM_JOINTS c) 1 @ [0, 0], replicate (NUM_CONTROLLABLES c) 1))"
proof -
  have len: "length action = NUM_JOINTS c + 2" using assms by simp
  have codes: "fst (SoloContToriEnv_preprocess_action t c action) =
           Inr (map (joint_code t) (take (NUM_JOINTS c) action)
                  @ map (grip_code t) (drop (NUM_JOINTS c) action),
                replicate (NUM_CONTROLLABLES c) 1)"
    unfolding SoloContToriEnv_preprocess_action_pair [OF len] by (rule fst_conv)
  have j: "joint_code t = (\<lambda>v. \<lfloor>clip (float_round t (v + 1)) 0 4.9\<rfloor>)"
    by (rule ext) (simp add: joint_code_def)
  have g: "grip_code t = (\<lambda>v. \<lfloor>clip (float_round t (float_round t (v + 1) - 1)) 0 1.9\<rfloor>)"
    by (rule ext) (simp add: grip_code_def)
  have result: "fst (SoloContToriEnv_preprocess_action t c action) =
           Inr (map (\<lambda>v. \<lfloor>clip (float_round t (v + 1)) 0 4.9\<rfloor>) (take (NUM_JOINTS c) action)
                  @ map (\<lambda>v. \<lfloor>clip (float_round t (float_round t (v + 1) - 1)) 0 1.9\<rfloor>)
                      (drop (NUM_JOINTS c) action),
                replicate (NUM_CONTROLLABLES c) 1)"
    using codes unfolding j g .
  have ranges: "\<forall>v. \<lfloor>clip (float_round t (v + 1)) 0 4.9\<rfloor> \<in> {0, 1, 2, 3, 4}
                \<and> \<lfloor>clip (float_round t (float_round t (v + 1) - 1)) 0 1.9\<rfloor> \<in> {0, 1}"
    using joint_code_range [of t] grip_code_range [of t] unfolding j g by blast
  have exact: "\<forall>v. float_round t (v + 1) = v + 1 \<and> float_round t v = v \<longrightarrow>
                \<lfloor>clip (float_round t (v + 1)) 0 4.9\<rfloor> = \<lfloor>clip (v + 1) 0 4.9\<rfloor>
                \<and> \<lfloor>clip (float_round t (float_round t (v + 1) - 1)) 0 1.9\<rfloor>
                    = \<lfloor>clip v 0 1.9\<rfloor>"
    by simp
  have zeros: "fst (SoloContToriEnv_preprocess_action t c action) =
                Inr (replicate (NUM_JOINTS c) 1 @ [0, 0], replicate (NUM_CONTROLLABLES c) 1)"
    if "action = replicate (NUM_CONTROLLABLES c) 0"
    using codes unfolding that assms(2) discretise_zeros .
  show ?thesis using result ranges exact zeros by blast
qed

theorem SoloContToriEnv_preprocess_action_result_witness:
  "length (replicate 22 (0::real)) = NUM_CONTROLLABLES example_constants
   \<and> NUM_CONTROLLABLES example_constants = NUM_JOINTS example_constants + 2
   \<and> float_round 23 (0 + 1) = 0 + 1 \<and> float_round 23 0 = 0
   \<and> fst (SoloContToriEnv_preprocess_action 23 example_constants (replicate 22 0)) =
       Inr (replicate 20 1 @ [0, 0], replicate 22 1)"
  using SoloContToriEnv_preprocess_action_result
      [where action = "replicate 22 0" and c = example_constants and t = 23]
  by (simp add: example_constants_def replicate_two float_round_one float_round_zero clip_def)

section \<open>The observation: theorems\<close>

text \<open>
  C8: for a state whose first player has NUM_LIMBS limbs of 3 coordinates,
  \<open>_preprocess_observation\<close> of both classes returns the flattened limb positions of
  that player alone, NUM_LIMBS * 3 numbers, whatever other players the state holds.
\<close>

theorem preprocess_observation_player1:
  assumes "limb_positions state = player1 # others"
    and "length player1 = NUM_LIMBS c"
    and "\<forall>limb \<in> set player1. length limb = 3"
  shows "fst (SoloToriEnv_preprocess_observation state) = Inr (concat player1)
         \<and> fst (SoloContToriEnv_preprocess_observation state) = Inr (concat player1)
         \<and> length (concat player1) = NUM_LIMBS c * 3"
proof -
  have "map length player1 = replicate (length player1) 3"
    using assms(3) by (simp add: map_replicate_const [symmetric] cong: map_cong)
  then have "length (concat player1) = NUM_LIMBS c * 3"
    by (simp add: length_concat sum_list_replicate assms(2))
  then show ?thesis
    by (simp add: SoloToriEnv_preprocess_observation_def
        SoloContToriEnv_preprocess_observation_def assms(1))
qed

theorem preprocess_observation_player1_witness:
  "limb_positions \<lparr>plr0_injury = 0,
       limb_positions = [replicate 21 [1, 2, 3], replicate 21 [7, 8, 9]]\<rparr>
     = replicate 21 [1, 2, 3] # [replicate 21 [7, 8, 9]]
   \<and> length (replicate 21 [1, 2, 3 :: real]) = NUM_LIMBS example_constants
   \<and> fst (SoloToriEnv_preprocess_observation \<lparr>plr0_injury = 0,
       limb_positions = [replicate 21 [1, 2, 3], replicate 21 [7, 8, 9]]\<rparr>)
     = Inr (concat (replicate 21 [1, 2, 3]))
   \<and> length (concat (replicate 21 [1, 2, 3 :: real])) = 63"
  using preprocess_observation_player1 [of
      "\<lparr>plr0_injury = 0, limb_positions = [replicate 21 [1, 2, 3], replicate 21 [7, 8, 9]]\<rparr>"
      "replicate 21 [1, 2, 3]" "[replicate 21 [7, 8, 9]]" example_constants]
  by (simp add: example_constants_def)

section \<open>Construction: theorems\<close>

lemma SoloToriEnv_init_ok:
  assumes "base_init kw = None" and "kw ''reward_func'' = Some (Callable f)"
  shows "\<exists>env. SoloToriEnv_init base_init platform c kw = Inr env
           \<and> reward_func env = Callable f
           \<and> (\<forall>old_state new_state.
                 reward_function env old_state new_state = f old_state new_state)"
  using assms by (simp add: SoloToriEnv_init_def reward_function_def)

lemma SoloContToriEnv_init_ok:
  assumes "base_init kw = None" and "kw ''reward_func'' = Some (Callable f)"
  shows "\<exists>env. SoloContToriEnv_init base_init c kw = Inr env
           \<and> reward_func env = Callable f
           \<and> (\<forall>old_state new_state.
                 reward_function env old_state new_state = f old_state new_state)"
  using assms by (simp add: SoloContToriEnv_init_def reward_function_def)

text \<open>
  C7: once the base class's constructor has returned, constructing either class
  without the key \<open>reward_func\<close> fails with KeyError; with the key bound to a callable
  the construction succeeds, stores it, and \<open>_reward_function\<close> returns what the
  callable returns.
\<close>

theorem init_requires_reward_func:
  assumes "base_init kw = None"
  shows "(kw ''reward_func'' = None \<longrightarrow>
            SoloToriEnv_init base_init platform c kw = Inl (KeyError ''reward_func'')
            \<and> SoloContToriEnv_init base_init c kw = Inl (KeyError ''reward_func''))
         \<and> (\<forall>f. kw ''reward_func'' = Some (Callable f) \<longrightarrow>
              (\<exists>env. SoloToriEnv_init base_init platform c kw = Inr env
                     \<and> reward_func env = Callable f
                     \<and> (\<forall>old_state new_state.
                           reward_function env old_state new_state = f old_state new_state))
              \<and> (\<exists>env. SoloContToriEnv_init base_init c kw = Inr env
                     \<and> reward_func env = Callable f
                     \<and> (\<forall>old_state new_state.
                           reward_function env old_state new_state = f old_state new_state)))"
proof (intro conjI impI allI)
  assume "kw ''reward_func'' = None"
  then show "SoloToriEnv_init base_init platform c kw = Inl (KeyError ''reward_func'')"
    using assms by (simp add: SoloToriEnv_init_def)
next
  assume "kw ''reward_func'' = None"
  then show "SoloContToriEnv_init base_init c kw = Inl (KeyError ''reward_func'')"
    using assms by (simp add: SoloContToriEnv_init_def)
next
  fix f assume "kw ''reward_func'' = Some (Callable f)"
  then show "\<exists>env. SoloToriEnv_init base_init platform c kw = Inr env
                     \<and> reward_func env = Callable f
                     \<and> (\<forall>old_state new_state.
                           reward_function env old_state new_state = f old_state new_state)"
    using assms by (rule SoloToriEnv_init_ok [rotated])
next
  fix f assume "kw ''reward_func'' = Some (Callable f)"
  then show "\<exists>env. SoloContToriEnv_init base_init c kw = Inr env
                     \<and> reward_func env = Callable f
                     \<and> (\<forall>old_state new_state.
                           reward_function env old_state new_state = f old_state new_state)"
    using assms by (rule SoloContToriEnv_init_ok [rotated])
qed

theorem init_requires_reward_func_witness:
  "(\<lambda>kw::kwargs. None :: error option) Map.empty = None
   \<and> SoloToriEnv_init (\<lambda>kw. None) ''linux'' example_constants Map.empty
       = Inl (KeyError ''reward_func'')
   \<and> SoloContToriEnv_init (\<lambda>kw. None) example_constants Map.empty
       = Inl (KeyError ''reward_func'')
   \<and> (\<exists>env. SoloToriEnv_init (\<lambda>kw. None) ''linux'' example_constants
               [''reward_func'' \<mapsto> Callable (\<lambda>a b. Inr (reward_self_destruct a b))] = Inr env
         \<and> reward_function env (injured 0) (injured 10) = Inr (1/4))
   \<and> (\<exists>env. SoloContToriEnv_init (\<lambda>kw. None) example_constants
               [''reward_func'' \<mapsto> Callable (\<lambda>a b. Inr (reward_self_destruct a b))] = Inr env
         \<and> reward_function env (injured 0) (injured 10) = Inr (1/4))"
proof -
  define g :: "ToribashState \<Rightarrow> ToribashState \<Rightarrow> error + real"
    where "g = (\<lambda>a b. Inr (reward_self_destruct a b))"
  define kw :: kwargs where "kw = [''reward_func'' \<mapsto> Callable g]"
  define base :: "kwargs \<Rightarrow> error option" where "base = (\<lambda>kw. None)"
  have v: "g (injured 0) (injured 10) = Inr (1/4)"
    by (simp add: g_def reward_self_destruct_def injured_def)
  have none: "(Map.empty :: kwargs) ''reward_func'' = None" by simp
  have some: "kw ''reward_func'' = Some (Callable g)" by (simp add: kw_def)
  have b0: "base Map.empty = None" and b1: "base kw = None" by (simp_all add: base_def)
  have miss: "SoloToriEnv_init base ''linux'' example_constants Map.empty
             = Inl (KeyError ''reward_func'')
           \<and> SoloContToriEnv_init base example_constants Map.empty
             = Inl (KeyError ''reward_func'')"
    using init_requires_reward_func [of base Map.empty "''linux''" example_constants] b0 none
    by blast
  have pres: "(\<exists>env. SoloToriEnv_init base ''linux'' example_constants kw = Inr env
                     \<and> reward_func env = Callable g
                     \<and> (\<forall>old_state new_state.
                           reward_function env old_state new_state = g old_state new_state))
              \<and> (\<exists>env. SoloContToriEnv_init base example_constants kw = Inr env
                     \<and> reward_func env = Callable g
                     \<and> (\<forall>old_state new_state.
                           reward_function env old_state new_state = g old_state new_state))"
    using init_requires_reward_func [of base kw "''linux''" example_constants] b1 some
    by blast
  from pres obtain env where
    e: "SoloToriEnv_init base ''linux'' example_constants kw = Inr env"
    and r: "\<forall>old_state new_state. reward_function env old_state new_state = g old_state new_state"
    by blast
  from pres obtain env' where
    e': "SoloContToriEnv_init base example_constants kw = Inr env'"
    and r': "\<forall>old_state new_state. reward_function env' old_state new_state = g old_state new_state"
    by blast
  have "\<exists>env. SoloToriEnv_init base ''linux'' example_constants kw = Inr env
         \<and> reward_function env (injured 0) (injured 10) = Inr (1/4)"
    using e r v by simp
  moreover have "\<exists>env. SoloContToriEnv_init base example_constants kw = Inr env
         \<and> reward_function env (injured 0) (injured 10) = Inr (1/4)"
    using e' r' v by simp
  ultimately show ?thesis
    using miss unfolding base_def kw_def g_def by simp
qed

lemma upto_0_3: "[0..3::int] = [0, 1, 2, 3]"
  by code_simp

lemma upto_0_1: "[0..1::int] = [0, 1]"
  by code_simp

text \<open>
  C2: the action space of \<open>SoloToriEnv\<close>. On win32 every joint dimension admits the
  four joint states and each grip dimension the values 0 and 1. On any other platform
  the joint dimensions are the same, but each grip dimension is given size 1 and admits
  the value 0 alone.
\<close>

theorem SoloToriEnv_action_space_grips:
  "map admissible (SoloToriEnv_action_space ''linux'' example_constants)
     = replicate 20 [0, 1, 2, 3] @ [[0], [0]]
   \<and> map admissible (SoloToriEnv_action_space ''win32'' example_constants)
     = replicate 20 [0, 1, 2, 3] @ [[0, 1], [0, 1]]"
  by (simp add: SoloToriEnv_action_space_def example_constants_def replicate_two upto_0_3 upto_0_1)

section \<open>Effects on the caller's objects\<close>

text \<open>
  C9, as the specification states it, fails: \<open>_preprocess_action\<close> of
  \<open>SoloContToriEnv\<close>, given a float64 array of zeros, leaves the caller's array with its
  joint entries set to 1.
\<close>

theorem preprocess_action_mutates_counterexample:
  "snd (SoloContToriEnv_preprocess_action 52 example_constants (replicate 22 0))
     = replicate 20 1 @ [0, 0]
   \<and> snd (SoloContToriEnv_preprocess_action 52 example_constants (replicate 22 0))
     \<noteq> replicate 22 0"
proof -
  have len: "length (replicate 22 (0::real)) = 20 + 2" by simp
  have after: "snd (SoloContToriEnv_preprocess_action 52 example_constants (replicate 22 0))
     = replicate 20 1 @ [0, 0]"
    unfolding SoloContToriEnv_preprocess_action_pair [OF len]
    by (simp add: joint_code_zero grip_code_zero replicate_two)
  moreover have "replicate 20 1 @ [0, 0] \<noteq> replicate 22 (0::real)"
  proof
    assume "replicate 20 1 @ [0, 0] = replicate 22 (0::real)"
    then have "hd (replicate 20 1 @ [0, 0]) = hd (replicate 22 (0::real))" by simp
    then show False by simp
  qed
  ultimately show ?thesis by simp
qed

lemma SoloToriEnv_preprocess_action_copies:
  "snd (SoloToriEnv_preprocess_action c (PyIterable xs)) = PyIterable xs"
  by (simp add: SoloToriEnv_preprocess_action_def split: prod.splits option.splits)

text \<open>
  C9, amended: \<open>_preprocess_observation\<close> of both classes leaves the state as it was,
  so a second call returns what the first returned. \<open>_preprocess_action\<close> of
  \<open>SoloToriEnv\<close> leaves a sequence that is not a list unchanged.
  \<open>_preprocess_action\<close> of \<open>SoloContToriEnv\<close> overwrites an array of length
  NUM_JOINTS + 2 with the discretised values.
\<close>

theorem preprocess_effects:
  "snd (SoloToriEnv_preprocess_observation state) = state
   \<and> snd (SoloContToriEnv_preprocess_observation state) = state
   \<and> fst (SoloToriEnv_preprocess_observation (snd (SoloToriEnv_preprocess_observation state)))
       = fst (SoloToriEnv_preprocess_observation state)
   \<and> fst (SoloContToriEnv_preprocess_observation
            (snd (SoloContToriEnv_preprocess_observation state)))
       = fst (SoloContToriEnv_preprocess_observation state)
   \<and> snd (SoloToriEnv_preprocess_action c (PyIterable xs)) = PyIterable xs
   \<and> (length action = NUM_JOINTS c + 2 \<longrightarrow>
        snd (SoloContToriEnv_preprocess_action t c action)
          = map (\<lambda>v. real_of_int \<lfloor>clip (float_round t (v + 1)) 0 4.9\<rfloor>)
              (take (NUM_JOINTS c) action)
            @ map (\<lambda>v. real_of_int \<lfloor>clip (float_round t (float_round t (v + 1) - 1)) 0 1.9\<rfloor>)
                (drop (NUM_JOINTS c) action))"
proof -
  have obs: "snd (SoloToriEnv_preprocess_observation s) = s" for s
    by (simp add: SoloToriEnv_preprocess_observation_def split: list.splits)
  have obs': "snd (SoloContToriEnv_preprocess_observation s) = s" for s
    by (simp add: SoloContToriEnv_preprocess_observation_def split: list.splits)
  have arr: "snd (SoloContToriEnv_preprocess_action t c action)
          = map (\<lambda>v. real_of_int \<lfloor>clip (float_round t (v + 1)) 0 4.9\<rfloor>)
              (take (NUM_JOINTS c) action)
            @ map (\<lambda>v. real_of_int \<lfloor>clip (float_round t (float_round t (v + 1) - 1)) 0 1.9\<rfloor>)
                (drop (NUM_JOINTS c) action)"
    if "length action = NUM_JOINTS c + 2"
    unfolding SoloContToriEnv_preprocess_action_pair [OF that] joint_code_def grip_code_def
    by (rule snd_conv)
  show ?thesis
    using arr by (simp add: obs obs' SoloToriEnv_preprocess_action_copies)
qed

theorem preprocess_effects_witness:
  "length (replicate 22 (0::real)) = NUM_JOINTS example_constants + 2
   \<and> snd (SoloContToriEnv_preprocess_action 23 example_constants (replicate 22 0))
       = replicate 20 1 @ [0, 0]
   \<and> snd (SoloToriEnv_preprocess_action example_constants (PyIterable (replicate 22 0)))
       = PyIterable (replicate 22 0)"
  using preprocess_effects
      [where c = example_constants and xs = "replicate 22 0" and action = "replicate 22 0"
        and t = 23]
  by (simp add: example_constants_def replicate_two float_round_one float_round_zero clip_def)

end
